theory Spec2Isabelle
  imports Complex_Main "HOL-Library.Sublist"
begin

section \<open>Strings of the host language\<close>

text \<open>
  A string of the source is a sequence of UTF-16 code units; \<open>length\<close>, \<open>indexOf\<close>,
  \<open>substring\<close> and the regular expressions of the source (none carries the \<open>u\<close> flag)
  all count code units. Every Chinese character of the source's tables lies in the Basic
  Multilingual Plane and is one code unit, written here by its code point.
\<close>

type_synonym jsstring = "nat list"

definition ascii :: "string \<Rightarrow> jsstring" where
  "ascii s = map of_char s"

text \<open>The lower case of a Basic Latin unit: A to Z become a to z.\<close>

definition lowerUnit :: "nat \<Rightarrow> nat" where
  "lowerUnit c = (if 65 \<le> c \<and> c \<le> 90 then c + 32 else c)"

text \<open>
  \<open>toLowerCase\<close>, unit by unit. The result can be longer than the string: U+0130
  (capital I with dot above) becomes the two units U+0069 U+0307, and it is the only
  unit whose lower case has another length. Beyond Basic Latin the table holds the
  capitals of Latin-1 and the fullwidth capitals (each 32 below its small letter), the
  Kelvin sign U+212A (to \<open>k\<close>) and the Angstrom sign U+212B (to U+00E5). The case
  table of the runtime is not part of the repository: the capitals of the other scripts
  are left out, and such a unit is kept as it is. No character of the source's keyword
  tables has a capital.
\<close>

definition lowerUnits :: "nat \<Rightarrow> nat list" where
  "lowerUnits c =
     (if c < 128 then [lowerUnit c]
      else if c = 0x130 then [0x69, 0x307]
      else if c = 0x212A then [0x6B]
      else if c = 0x212B then [0xE5]
      else if (0xC0 \<le> c \<and> c \<le> 0xDE \<and> c \<noteq> 0xD7) \<or> (0xFF21 \<le> c \<and> c \<le> 0xFF3A) then [c + 32]
      else [c])"

definition toLowerCase :: "jsstring \<Rightarrow> jsstring" where
  "toLowerCase s = concat (map lowerUnits s)"

text \<open>\<open>s.includes(k)\<close>: \<open>k\<close> occurs in \<open>s\<close> as a contiguous run.\<close>

definition includesStr :: "jsstring \<Rightarrow> jsstring \<Rightarrow> bool" where
  "includesStr s k = sublist k s"

text \<open>\<open>s.startsWith(k)\<close> is \<open>prefix k s\<close> and \<open>s.endsWith(k)\<close> is \<open>suffix k s\<close>.\<close>

text \<open>
  \<open>s.indexOf(k, pos)\<close>: the least index at or after \<open>pos\<close> (clamped to the length) where
  \<open>k\<close> starts, or \<open>-1\<close>. \<open>indexOfAux\<close> scans the rest of the string, \<open>i\<close> being the index
  of its first unit.
\<close>

fun indexOfAux :: "jsstring \<Rightarrow> jsstring \<Rightarrow> nat \<Rightarrow> int" where
  "indexOfAux [] k i = (if k = [] then int i else -1)"
| "indexOfAux (c # cs) k i = (if prefix k (c # cs) then int i else indexOfAux cs k (Suc i))"

definition indexOf :: "jsstring \<Rightarrow> jsstring \<Rightarrow> int \<Rightarrow> int" where
  "indexOf s k pos =
     (let p = min (nat (max 0 pos)) (length s) in indexOfAux (drop p s) k p)"

text \<open>
  \<open>s.substring(a, b)\<close>: both bounds are clamped to \<open>[0, length]\<close> and swapped when
  \<open>a > b\<close>.
\<close>

definition substring :: "jsstring \<Rightarrow> int \<Rightarrow> int \<Rightarrow> jsstring" where
  "substring s a b =
     (let n = int (length s);
          a' = min (max 0 a) n;
          b' = min (max 0 b) n;
          from = min a' b';
          to = max a' b'
      in take (nat (to - from)) (drop (nat from) s))"

text \<open>White space and line terminators: what \<open>trim\<close> strips and \<open>\s\<close> matches.\<close>

definition isWhiteSpace :: "nat \<Rightarrow> bool" where
  "isWhiteSpace c \<longleftrightarrow>
     c \<in> {9, 10, 11, 12, 13, 32, 160, 0x1680, 0x2028, 0x2029, 0x202F, 0x205F, 0x3000, 0xFEFF}
     \<or> (0x2000 \<le> c \<and> c \<le> 0x200A)"

definition trim :: "jsstring \<Rightarrow> jsstring" where
  "trim s = rev (dropWhile isWhiteSpace (rev (dropWhile isWhiteSpace s)))"

definition isDigit :: "nat \<Rightarrow> bool" where
  "isDigit c \<longleftrightarrow> 48 \<le> c \<and> c \<le> 57"

section \<open>The line classifier (DialogueListenerService)\<close>

datatype speaker = USER | BUILDER | CHAT

text \<open>The keyword table of \<open>isTerminalOrSystemMessage\<close>, in the source's order.\<close>

definition terminalKeywords :: "jsstring list" where
  "terminalKeywords =
   [[0x7EC8, 0x7AEF], ascii ''terminal'', [0x547D, 0x4EE4], ascii ''command'',
    ascii ''npm'', ascii ''git'', ascii ''cd'', ascii ''ls'', ascii ''dir'',
    [0x7F16, 0x8BD1], ascii ''compile'', [0x6784, 0x5EFA], ascii ''build'',
    [0x8FD0, 0x884C], ascii ''run'', [0x6267, 0x884C], ascii ''execute'',
    [0x9519, 0x8BEF], ascii ''error'', [0x8B66, 0x544A], ascii ''warning'',
    [0x4FE1, 0x606F], ascii ''info'', [0x8C03, 0x8BD5], ascii ''debug'',
    [0x65AD, 0x70B9], ascii ''breakpoint'', [0x5DE5, 0x5177, 0x8C03, 0x7528],
    ascii ''tool_call'', ascii ''Tool:'', [0x5DE5, 0x5177] @ ascii '':'',
    [0x521B, 0x5EFA], ascii ''create'', [0x5173, 0x95ED], ascii ''close'',
    [0x5F00, 0x59CB], ascii ''start'', [0x7ED3, 0x675F], ascii ''end'']"

definition isTerminalOrSystemMessage :: "jsstring \<Rightarrow> bool" where
  "isTerminalOrSystemMessage line =
     list_ex (\<lambda>keyword. includesStr (toLowerCase line) (toLowerCase keyword)) terminalKeywords"

text \<open>
  The patterns of \<open>isRealChatContent\<close>, each written as the predicate its regular
  expression decides: \<open>/^\s*\d+\s*$/\<close>, \<open>/^[\s\-\*]+$/\<close>,
  \<open>/^(OK|...)$/i\<close> (the whole string is one of seven status words, letters compared
  without case) and four anchored prefixes. The flag \<open>i\<close> of a pattern without the flag
  \<open>u\<close> compares unit by unit and never takes a unit beyond Basic Latin for a Basic
  Latin letter: for the letters O and K of the status words it is the comparison of
  \<open>lowerUnit\<close>.
\<close>

definition pureNumber :: "jsstring \<Rightarrow> bool" where
  "pureNumber s =
     (let t = dropWhile isWhiteSpace s
      in takeWhile isDigit t \<noteq> [] \<and> list_all isWhiteSpace (dropWhile isDigit t))"

definition onlySymbols :: "jsstring \<Rightarrow> bool" where
  "onlySymbols s \<longleftrightarrow> s \<noteq> [] \<and> list_all (\<lambda>c. isWhiteSpace c \<or> c = 45 \<or> c = 42) s"

definition statusWords :: "jsstring list" where
  "statusWords =
   [ascii ''OK'', [0x6210, 0x529F], [0x5931, 0x8D25], [0x9519, 0x8BEF], [0x5B8C, 0x6210],
    [0x5F00, 0x59CB], [0x7ED3, 0x675F]]"

definition statusWord :: "jsstring \<Rightarrow> bool" where
  "statusWord s = list_ex (\<lambda>w. map lowerUnit s = map lowerUnit w) statusWords"

definition systemPrefixes :: "jsstring list" where
  "systemPrefixes =
   [[0x6267, 0x884C, 0x547D, 0x4EE4] @ ascii '':'',
    [0x5DE5, 0x5177, 0x8C03, 0x7528] @ ascii '':'',
    [0x7EC8, 0x7AEF, 0x5DF2],
    [0x8C03, 0x8BD5, 0x4F1A, 0x8BDD]]"

definition minLength :: nat where
  "minLength = 10"

definition maxLength :: nat where
  "maxLength = 5000"

definition isRealChatContent :: "jsstring \<Rightarrow> bool" where
  "isRealChatContent content =
     (if length content < minLength \<or> length content > maxLength then False
      else \<not> (pureNumber content \<or> onlySymbols content \<or> statusWord content
                \<or> list_ex (\<lambda>p. prefix p content) systemPrefixes))"

definition dialogueIndicators :: "jsstring list" where
  "dialogueIndicators =
   [[0x4F60, 0x597D], [0x8BF7, 0x95EE], [0x8C22, 0x8C22], [0x5E2E, 0x52A9],
    [0x95EE, 0x9898], [0x56DE, 0x7B54], [0x89E3, 0x91CA], [0x8BF4, 0x660E],
    [0x5982, 0x4F55], [0x4EC0, 0x4E48], [0x4E3A, 0x4EC0, 0x4E48], [0x600E, 0x6837],
    [0x53EF, 0x4EE5], [0x9700, 0x8981], [0x60F3, 0x8981], [0x5E0C, 0x671B],
    [0x6211, 0x89C9, 0x5F97], [0x6211, 0x8BA4, 0x4E3A], [0x5EFA, 0x8BAE], [0x63A8, 0x8350],
    [0x793A, 0x4F8B], [0x4EE3, 0x7801], [0x5B9E, 0x73B0], [0x529F, 0x80FD],
    [0x7279, 0x6027], [0x9700, 0x6C42], [0x8981, 0x6C42], [0x4EFB, 0x52A1],
    [0x76EE, 0x6807], [0x76EE, 0x7684]]"

definition isPureDialogueContent :: "jsstring \<Rightarrow> bool" where
  "isPureDialogueContent line \<longleftrightarrow>
     list_ex (\<lambda>indicator. includesStr line indicator) dialogueIndicators \<and> length line > 20"

definition determineSpeakerFromContext :: "jsstring \<Rightarrow> speaker option" where
  "determineSpeakerFromContext line =
     (if includesStr line (ascii ''?'') \<or> includesStr line [0xFF1F]
         \<or> includesStr line [0x8BF7, 0x95EE] \<or> includesStr line [0x5982, 0x4F55]
         \<or> includesStr line [0x4EC0, 0x4E48] \<or> includesStr line [0x4E3A, 0x4EC0, 0x4E48]
      then Some USER
      else if includesStr line [0x4EE3, 0x7801] \<or> includesStr line [0x5B9E, 0x73B0]
         \<or> includesStr line [0x529F, 0x80FD] \<or> includesStr line [0x5DE5, 0x5177]
      then Some BUILDER
      else if length line > 100 then Some CHAT
      else None)"

fun extractContent :: "jsstring \<Rightarrow> jsstring list \<Rightarrow> jsstring option" where
  "extractContent line [] = None"
| "extractContent line (marker # markers) =
     (let index = indexOf line marker 0
      in if index \<noteq> -1
         then Some (trim (substring line (index + int (length marker)) (int (length line))))
         else extractContent line markers)"

text \<open>
  The branch of \<open>analyzeOutputLine\<close> a line takes: the arguments of the one
  \<open>recordDialogue\<close> call it makes, or \<open>None\<close> when it makes none. The three marker
  tests are the source's regular expressions \<open>/\[Builder\]|^Builder:/\<close>,
  \<open>/\[Chat\]|^Chat:|^Assistant:/\<close> and \<open>/\[User\]|^User:|^USER:/\<close>; the test
  \<open>content && ...\<close> fails on \<open>null\<close> and on the empty string.
\<close>

definition markedContent :: "speaker \<Rightarrow> jsstring option \<Rightarrow> (speaker \<times> jsstring) option" where
  "markedContent who extracted =
     (case extracted of
        None \<Rightarrow> None
      | Some content \<Rightarrow>
          if content \<noteq> [] \<and> isRealChatContent content then Some (who, content) else None)"

definition matchesBuilder :: "jsstring \<Rightarrow> bool" where
  "matchesBuilder line \<longleftrightarrow>
     includesStr line (ascii ''[Builder]'') \<or> prefix (ascii ''Builder:'') line"

definition matchesChat :: "jsstring \<Rightarrow> bool" where
  "matchesChat line \<longleftrightarrow>
     includesStr line (ascii ''[Chat]'') \<or> prefix (ascii ''Chat:'') line
     \<or> prefix (ascii ''Assistant:'') line"

definition matchesUser :: "jsstring \<Rightarrow> bool" where
  "matchesUser line \<longleftrightarrow>
     includesStr line (ascii ''[User]'') \<or> prefix (ascii ''User:'') line
     \<or> prefix (ascii ''USER:'') line"

definition classifyLine :: "jsstring \<Rightarrow> (speaker \<times> jsstring) option" where
  "classifyLine line =
     (if isTerminalOrSystemMessage line then None
      else if matchesBuilder line
      then markedContent BUILDER (extractContent line [ascii ''[Builder]'', ascii ''Builder:''])
      else if matchesChat line
      then markedContent CHAT
             (extractContent line [ascii ''[Chat]'', ascii ''Chat:'', ascii ''Assistant:''])
      else if matchesUser line
      then markedContent USER
             (extractContent line [ascii ''[User]'', ascii ''User:'', ascii ''USER:''])
      else if isPureDialogueContent line
      then (case determineSpeakerFromContext line of
              None \<Rightarrow> None
            | Some who \<Rightarrow> if isRealChatContent line then Some (who, line) else None)
      else None)"

section \<open>Records and the record store (DatabaseService)\<close>

datatype recordType = DIALOGUE | FILE_MODIFICATION | UNDO | REDO

datatype modificationType = CREATE | MODIFY | DELETE | RENAME

text \<open>
  \<open>DialogueRecord\<close> with its optional fields; \<open>timestamp\<close> is the \<open>Date\<close> in
  milliseconds since the epoch.
\<close>

record DialogueRecord =
  recordId :: jsstring
  sessionId :: jsstring
  timestamp :: int
  speaker :: speaker
  content :: jsstring
  recordType :: recordType
  filePath :: "jsstring option"
  modificationType :: "modificationType option"
  oldContent :: "jsstring option"
  newContent :: "jsstring option"
  operationDetails :: "jsstring option"

datatype error =
    DatabaseNotInitialized
  | InitializationFailed
  | SqliteConstraint
  | SqliteFailure
  | TypeError
  | SyntaxError

text \<open>
  The state of a \<open>DatabaseService\<close>, as one call finds it (the asynchronous calls of the
  source are taken one at a time, each after the initialisation promise has settled):
  \<^item> \<open>db\<close>: \<open>None\<close> is the \<open>null\<close> handle; \<open>Some rows\<close> is an open handle on the
    table \<open>dialogue_records\<close>, its rows in insertion order;
  \<^item> \<open>initialization\<close>: how \<open>initializationPromise\<close> settled, \<open>Some e\<close> when it was
    rejected with \<open>e\<close>;
  \<^item> \<open>engineFailure\<close>: \<open>Some e\<close> when the engine fails every statement with \<open>e\<close>
    (the file cannot be read or written);
  \<^item> \<open>saveCalls\<close>: a counter of the calls of \<open>saveRecord\<close>, kept to state how often
    a caller tries; the source has no such field.
\<close>

record DatabaseService =
  db :: "DialogueRecord list option"
  initialization :: "error option"
  engineFailure :: "error option"
  saveCalls :: nat

text \<open>
  The preamble every method starts with: with a \<open>null\<close> handle it awaits the
  initialisation promise (which throws when that was rejected) and throws
  \<open>Database not initialized\<close> when the handle is still \<open>null\<close>.
\<close>

definition awaitDb :: "DatabaseService \<Rightarrow> error + DialogueRecord list" where
  "awaitDb S =
     (case db S of
        Some rows \<Rightarrow> Inr rows
      | None \<Rightarrow>
          (case initialization S of
             Some e \<Rightarrow> Inl e
           | None \<Rightarrow> Inl DatabaseNotInitialized))"

text \<open>
  The table of this revision has the six columns \<open>id\<close>, \<open>session_id\<close>, \<open>timestamp\<close>,
  \<open>speaker\<close>, \<open>content\<close>, \<open>record_type\<close>: the optional fields are not stored.
\<close>

definition storedColumns :: "DialogueRecord \<Rightarrow> DialogueRecord" where
  "storedColumns r =
     r\<lparr>filePath := None, modificationType := None, oldContent := None,
       newContent := None, operationDetails := None\<rparr>"

text \<open>
  \<open>saveRecord\<close>: the \<open>INSERT\<close> fails on a row whose \<open>id\<close> is already in the table
  (\<open>id TEXT PRIMARY KEY\<close>). The result is the rejection, if any, and the state after
  the call.
\<close>

definition saveRecord :: "DatabaseService \<Rightarrow> DialogueRecord \<Rightarrow> error option \<times> DatabaseService" where
  "saveRecord S r =
     (let S' = S\<lparr>saveCalls := Suc (saveCalls S)\<rparr>
      in case awaitDb S of
           Inl e \<Rightarrow> (Some e, S')
         | Inr rows \<Rightarrow>
             (case engineFailure S of
                Some e \<Rightarrow> (Some e, S')
              | None \<Rightarrow>
                  if recordId r \<in> set (map recordId rows) then (Some SqliteConstraint, S')
                  else (None, S'\<lparr>db := Some (rows @ [storedColumns r])\<rparr>)))"

text \<open>The rows of the table; none behind a \<open>null\<close> handle.\<close>

definition storedRecords :: "DatabaseService \<Rightarrow> DialogueRecord list" where
  "storedRecords S = (case db S of None \<Rightarrow> [] | Some rows \<Rightarrow> rows)"

section \<open>Recording (DialogueListenerService)\<close>

datatype console_line = ConsoleLog jsstring | ConsoleError jsstring error

text \<open>
  The listener with the console it writes to. The record id and the clock come from
  \<open>Date.now()\<close> and \<open>Math.random()\<close>: they are arguments \<open>rid\<close> and \<open>now\<close> here.
\<close>

record DialogueListenerService =
  databaseService :: DatabaseService
  currentSessionId :: jsstring
  isListening :: bool
  console :: "console_line list"

definition speakerName :: "speaker \<Rightarrow> jsstring" where
  "speakerName who = (case who of USER \<Rightarrow> ascii ''USER'' | BUILDER \<Rightarrow> ascii ''BUILDER''
                      | CHAT \<Rightarrow> ascii ''CHAT'')"

text \<open>
  \<open>recordDialogue\<close>: one \<open>saveRecord\<close> inside \<open>try\<close>; its rejection is caught and
  written with \<open>console.error\<close>. The result type has room for an error escaping to the
  caller.
\<close>

text \<open>The text \<open>console.error\<close> is given when a record cannot be stored.\<close>

definition failureLine :: jsstring where
  "failureLine = [0x8BB0, 0x5F55, 0x5BF9, 0x8BDD, 0x5931, 0x8D25] @ ascii '':''"

definition dialogueRecord ::
  "DialogueListenerService \<Rightarrow> speaker \<Rightarrow> jsstring \<Rightarrow> jsstring \<Rightarrow> int \<Rightarrow> DialogueRecord" where
  "dialogueRecord L who text rid now =
     \<lparr>recordId = rid, sessionId = currentSessionId L, timestamp = now,
      speaker = who, content = text, recordType = DIALOGUE, filePath = None,
      modificationType = None, oldContent = None, newContent = None,
      operationDetails = None\<rparr>"

definition recordDialogue ::
  "DialogueListenerService \<Rightarrow> speaker \<Rightarrow> jsstring \<Rightarrow> jsstring \<Rightarrow> int
     \<Rightarrow> error + DialogueListenerService" where
  "recordDialogue L who text rid now =
     (let r = dialogueRecord L who text rid now
      in case saveRecord (databaseService L) r of
           (None, S') \<Rightarrow>
             Inr (L\<lparr>databaseService := S',
                    console := console L @
                      [ConsoleLog ([0x8BB0, 0x5F55, 0x5BF9, 0x8BDD] @ ascii '': '' @ speakerName who
                         @ ascii '' - '' @ substring text 0 50 @ ascii ''...'')]\<rparr>)
         | (Some e, S') \<Rightarrow>
             Inr (L\<lparr>databaseService := S',
                    console := console L @
                      [ConsoleError failureLine e]\<rparr>))"

definition analyzeOutputLine ::
  "DialogueListenerService \<Rightarrow> jsstring \<Rightarrow> jsstring \<Rightarrow> int \<Rightarrow> error + DialogueListenerService" where
  "analyzeOutputLine L line rid now =
     (case classifyLine line of
        None \<Rightarrow> Inr L
      | Some (who, text) \<Rightarrow> recordDialogue L who text rid now)"

subsection \<open>Lifecycle events\<close>

text \<open>The decimal digits of a number, as a template literal prints it.\<close>

fun toDecimal :: "nat \<Rightarrow> jsstring" where
  "toDecimal n = (if n < 10 then [48 + n] else toDecimal (n div 10) @ [48 + n mod 10])"

declare toDecimal.simps [simp del]

text \<open>
  A breakpoint with a \<open>location\<close> (file path and zero-based line), one with a
  \<open>functionName\<close>, or one with neither.
\<close>

datatype breakpoint =
    SourceBreakpoint jsstring nat
  | FunctionBreakpoint jsstring
  | OtherBreakpoint

datatype event =
    TerminalOpened jsstring
  | TerminalClosed jsstring
  | TerminalInteracted jsstring
  | DebugSessionStarted jsstring
  | DebugSessionTerminated jsstring
  | DebugOutput jsstring
  | BreakpointAdded breakpoint
  | BreakpointRemoved breakpoint

text \<open>
  The \<open>recordDialogue\<close> call of each handler (\<open>setupTerminalListener\<close>,
  \<open>setupTerminalDataListener\<close>, \<open>setupDebugConsoleListener\<close>): speaker and text.
\<close>

fun lifecycleCall :: "event \<Rightarrow> (speaker \<times> jsstring) option" where
  "lifecycleCall (TerminalOpened name) =
     Some (BUILDER, [0x7EC8, 0x7AEF, 0x5DF2, 0x521B, 0x5EFA] @ ascii '': '' @ name)"
| "lifecycleCall (TerminalClosed name) =
     Some (BUILDER, [0x7EC8, 0x7AEF, 0x5DF2, 0x5173, 0x95ED] @ ascii '': '' @ name)"
| "lifecycleCall (TerminalInteracted name) =
     Some (USER, [0x7EC8, 0x7AEF, 0x4EA4, 0x4E92] @ ascii '': '' @ name)"
| "lifecycleCall (DebugSessionStarted name) =
     Some (BUILDER, [0x8C03, 0x8BD5, 0x4F1A, 0x8BDD, 0x5F00, 0x59CB] @ ascii '': '' @ name)"
| "lifecycleCall (DebugSessionTerminated name) =
     Some (BUILDER, [0x8C03, 0x8BD5, 0x4F1A, 0x8BDD, 0x7ED3, 0x675F] @ ascii '': '' @ name)"
| "lifecycleCall (DebugOutput output) =
     (if output \<noteq> [] then Some (BUILDER, [0x8C03, 0x8BD5, 0x8F93, 0x51FA] @ ascii '': '' @ output)
      else None)"
| "lifecycleCall (BreakpointAdded (SourceBreakpoint fsPath line)) =
     Some (USER, [0x8BBE, 0x7F6E, 0x65AD, 0x70B9] @ ascii '': '' @ fsPath @ ascii '':''
                   @ toDecimal (line + 1))"
| "lifecycleCall (BreakpointAdded (FunctionBreakpoint functionName)) =
     Some (USER, [0x8BBE, 0x7F6E, 0x51FD, 0x6570, 0x65AD, 0x70B9] @ ascii '': '' @ functionName)"
| "lifecycleCall (BreakpointAdded OtherBreakpoint) = None"
| "lifecycleCall (BreakpointRemoved (SourceBreakpoint fsPath line)) =
     Some (USER, [0x79FB, 0x9664, 0x65AD, 0x70B9] @ ascii '': '' @ fsPath @ ascii '':''
                   @ toDecimal (line + 1))"
| "lifecycleCall (BreakpointRemoved (FunctionBreakpoint functionName)) =
     Some (USER, [0x79FB, 0x9664, 0x51FD, 0x6570, 0x65AD, 0x70B9] @ ascii '': '' @ functionName)"
| "lifecycleCall (BreakpointRemoved OtherBreakpoint) = None"

definition handleEvent ::
  "DialogueListenerService \<Rightarrow> event \<Rightarrow> jsstring \<Rightarrow> int \<Rightarrow> error + DialogueListenerService" where
  "handleEvent L ev rid now =
     (case lifecycleCall ev of
        None \<Rightarrow> Inr L
      | Some (who, text) \<Rightarrow> recordDialogue L who text rid now)"

text \<open>A listener on an open, empty store, for the closed examples below.\<close>

definition emptyStore :: DatabaseService where
  "emptyStore = \<lparr>db = Some [], initialization = None, engineFailure = None, saveCalls = 0\<rparr>"

definition newListener :: DialogueListenerService where
  "newListener = \<lparr>databaseService = emptyStore, currentSessionId = ascii ''session_1_abc'',
                   isListening = True, console = []\<rparr>"

section \<open>Session detail (DatabaseService)\<close>

text \<open>
  The row of the aggregate query of \<open>getSessionDetail\<close>. A time stored in the table
  as ISO-8601 text is represented by the time itself: the text sorts and compares as
  the time does (for years of four digits), and \<open>new Date\<close> reads it back.
\<close>

record SessionInfo =
  infoSessionId :: jsstring
  infoTotalRecords :: nat
  infoStartTime :: int
  infoEndTime :: int
  infoSpeakers :: "jsstring list"

text \<open>
  \<open>SELECT ... WHERE session_id = ? GROUP BY session_id\<close>: one row for the group of the
  session, and no row (\<open>undefined\<close>) when no record has that session id.
  \<open>infoSpeakers\<close> is \<open>GROUP_CONCAT(DISTINCT speaker)\<close> after the source's
  \<open>split(',')\<close>; the order of the names is the engine's.
\<close>

definition sessionInfoRow :: "DialogueRecord list \<Rightarrow> jsstring \<Rightarrow> SessionInfo option" where
  "sessionInfoRow rows sid =
     (case filter (\<lambda>r. sessionId r = sid) rows of
        [] \<Rightarrow> None
      | r # rs \<Rightarrow>
          Some \<lparr>infoSessionId = sid,
                infoTotalRecords = length (r # rs),
                infoStartTime = fold min (map timestamp rs) (timestamp r),
                infoEndTime = fold max (map timestamp rs) (timestamp r),
                infoSpeakers = map speakerName (remdups (map speaker (r # rs)))\<rparr>)"

text \<open>\<open>getRecordsBySession\<close>: the rows of the session, \<open>ORDER BY timestamp ASC\<close>.\<close>

definition getRecordsBySession :: "DatabaseService \<Rightarrow> jsstring \<Rightarrow> error + DialogueRecord list" where
  "getRecordsBySession S sid =
     (case awaitDb S of
        Inl e \<Rightarrow> Inl e
      | Inr rows \<Rightarrow>
          (case engineFailure S of
             Some e \<Rightarrow> Inl e
           | None \<Rightarrow> Inr (sort_key timestamp (filter (\<lambda>r. sessionId r = sid) rows))))"

definition formatDuration :: "nat \<Rightarrow> jsstring" where
  "formatDuration ms =
     (let seconds = ms div 1000;
          minutes = seconds div 60;
          hours = minutes div 60
      in if hours > 0
         then toDecimal hours @ [0x5C0F, 0x65F6] @ toDecimal (minutes mod 60) @ [0x5206, 0x949F]
         else if minutes > 0
         then toDecimal minutes @ [0x5206, 0x949F] @ toDecimal (seconds mod 60) @ [0x79D2]
         else toDecimal seconds @ [0x79D2])"

record SessionDetail =
  detailSessionId :: jsstring
  detailSessionName :: jsstring
  detailRecords :: "DialogueRecord list"
  detailTotalRecords :: nat
  detailDuration :: jsstring
  detailSpeakers :: "jsstring list"
  detailStartTime :: int
  detailEndTime :: int

text \<open>
  \<open>getSessionDetail\<close>: the aggregate row, then the records, then the fields of the
  row are read. Reading \<open>startTime\<close> of a row that is \<open>undefined\<close> throws a
  \<open>TypeError\<close> inside the \<open>try\<close>, and the promise is rejected with it.
\<close>

definition getSessionDetail :: "DatabaseService \<Rightarrow> jsstring \<Rightarrow> error + SessionDetail" where
  "getSessionDetail S sid =
     (case awaitDb S of
        Inl e \<Rightarrow> Inl e
      | Inr rows \<Rightarrow>
          (case engineFailure S of
             Some e \<Rightarrow> Inl e
           | None \<Rightarrow>
               (case getRecordsBySession S sid of
                  Inl e \<Rightarrow> Inl e
                | Inr records \<Rightarrow>
                    (case sessionInfoRow rows sid of
                       None \<Rightarrow> Inl TypeError
                     | Some info \<Rightarrow>
                         Inr \<lparr>detailSessionId = infoSessionId info,
                              detailSessionName =
                                [0x4F1A, 0x8BDD] @ ascii '' '' @ substring sid 0 8 @ ascii ''...'',
                              detailRecords = records,
                              detailTotalRecords = infoTotalRecords info,
                              detailDuration =
                                formatDuration (nat (infoEndTime info - infoStartTime info)),
                              detailSpeakers = infoSpeakers info,
                              detailStartTime = infoStartTime info,
                              detailEndTime = infoEndTime info\<rparr>))))"

section \<open>Search (SearchService)\<close>

record SearchCriteria =
  keyword :: "jsstring option"
  startTime :: "int option"
  endTime :: "int option"
  criteriaSpeaker :: "speaker option"
  criteriaRecordType :: "recordType option"
  fileExtension :: "jsstring option"

record SearchResult =
  resultRecord :: DialogueRecord
  relevance :: real
  highlights :: "jsstring list"

subsection \<open>The regular expression built from the keyword\<close>

text \<open>
  \<open>calculateRelevance\<close> counts with \<open>content.match(new RegExp(keywordLower, 'g'))\<close>:
  the keyword is the pattern text. Modelled here are the patterns made of ordinary
  characters and the dot, and the patterns that open with a quantifier, which the
  runtime refuses with a \<open>SyntaxError\<close> (nothing to repeat). For a pattern with any
  other operator the count is the runtime's and is a parameter, \<open>engine\<close>.
\<close>

datatype rx_atom = RxChar nat | RxAny

datatype rx_pattern = RxAtoms "rx_atom list" | RxNothingToRepeat | RxOther

definition syntaxCharacter :: "nat \<Rightarrow> bool" where
  "syntaxCharacter c \<longleftrightarrow> c \<in> {94, 36, 92, 46, 42, 43, 63, 40, 41, 91, 93, 123, 125, 124}"

definition lineTerminator :: "nat \<Rightarrow> bool" where
  "lineTerminator c \<longleftrightarrow> c \<in> {10, 13, 0x2028, 0x2029}"

definition compilePattern :: "jsstring \<Rightarrow> rx_pattern" where
  "compilePattern pattern =
     (case pattern of
        [] \<Rightarrow> RxAtoms []
      | c # cs \<Rightarrow>
          if c = 42 \<or> c = 43 \<or> c = 63 then RxNothingToRepeat
          else if list_all (\<lambda>u. u = 46 \<or> \<not> syntaxCharacter u) pattern
          then RxAtoms (map (\<lambda>u. if u = 46 then RxAny else RxChar u) pattern)
          else RxOther)"

fun atomMatches :: "rx_atom \<Rightarrow> nat \<Rightarrow> bool" where
  "atomMatches (RxChar a) c = (a = c)"
| "atomMatches RxAny c = (\<not> lineTerminator c)"

fun matchesAt :: "rx_atom list \<Rightarrow> jsstring \<Rightarrow> bool" where
  "matchesAt [] s = True"
| "matchesAt (a # as) [] = False"
| "matchesAt (a # as) (c # cs) = (atomMatches a c \<and> matchesAt as cs)"

text \<open>
  The matches a global regular expression finds: the leftmost match from the last
  index, then on from its end (one unit further after an empty match).
\<close>

fun countMatches :: "rx_atom list \<Rightarrow> jsstring \<Rightarrow> nat" where
  "countMatches p [] = (if matchesAt p [] then 1 else 0)"
| "countMatches p (c # cs) =
     (if matchesAt p (c # cs) then Suc (countMatches p (drop (length p - 1) cs))
      else countMatches p cs)"

definition globalMatchCount ::
  "(jsstring \<Rightarrow> jsstring \<Rightarrow> error + nat) \<Rightarrow> jsstring \<Rightarrow> jsstring \<Rightarrow> error + nat" where
  "globalMatchCount engine pattern subject =
     (case compilePattern pattern of
        RxAtoms p \<Rightarrow> Inr (countMatches p subject)
      | RxNothingToRepeat \<Rightarrow> Inl SyntaxError
      | RxOther \<Rightarrow> engine pattern subject)"

subsection \<open>Relevance, highlights and the search itself\<close>

text \<open>
  The scores are the source's floating-point numbers taken as exact reals.
\<close>

definition calculateRelevance ::
  "(jsstring \<Rightarrow> jsstring \<Rightarrow> error + nat) \<Rightarrow> DialogueRecord \<Rightarrow> jsstring \<Rightarrow> error + real" where
  "calculateRelevance engine r kw =
     (if kw = [] then Inr (1 / 2)
      else
        let contentLower = toLowerCase (content r);
            keywordLower = toLowerCase kw
        in if includesStr contentLower keywordLower
           then (case globalMatchCount engine keywordLower contentLower of
                   Inl e \<Rightarrow> Inl e
                 | Inr keywordCount \<Rightarrow>
                     let position = indexOf contentLower keywordLower 0;
                         positionScore =
                           max 0 (1 - real_of_int position / real (length contentLower))
                     in Inr (min 1 (3 / 10 + real keywordCount * (2 / 10) + positionScore * (1 / 2))))
           else Inr 0)"

text \<open>
  The loop of \<open>extractHighlights\<close>. It is defined as a partial function: where the
  loop would not end, its value is \<open>None\<close>.
\<close>

partial_function (option) highlightLoop ::
  "jsstring \<Rightarrow> jsstring \<Rightarrow> jsstring \<Rightarrow> jsstring \<Rightarrow> int \<Rightarrow> jsstring list \<Rightarrow> jsstring list option" where
  "highlightLoop text kw contentLower keywordLower index acc =
     (if index \<noteq> -1
      then highlightLoop text kw contentLower keywordLower
             (indexOf contentLower keywordLower (index + 1))
             (acc @ [substring text (max 0 (index - 20))
                       (min (int (length text)) (index + int (length kw) + 20))])
      else Some acc)"

definition extractHighlights :: "jsstring \<Rightarrow> jsstring \<Rightarrow> jsstring list option" where
  "extractHighlights text kw =
     (if kw = [] then Some []
      else highlightLoop text kw (toLowerCase text) (toLowerCase kw)
             (indexOf (toLowerCase text) (toLowerCase kw) 0) [])"

text \<open>
  The callback of \<open>records.filter\<close>. A criterion that is \<open>undefined\<close> or the empty
  string is false in a condition, and so is a \<open>filePath\<close> that is absent or empty.
\<close>

definition truthy :: "jsstring option \<Rightarrow> bool" where
  "truthy v = (case v of None \<Rightarrow> False | Some s \<Rightarrow> s \<noteq> [])"

definition endsWithOpt :: "jsstring option \<Rightarrow> jsstring option \<Rightarrow> bool" where
  "endsWithOpt path ext =
     (case path of
        None \<Rightarrow> False
      | Some p \<Rightarrow> (case ext of None \<Rightarrow> False | Some e \<Rightarrow> suffix e p))"

definition matchesCriteria :: "SearchCriteria \<Rightarrow> DialogueRecord \<Rightarrow> bool" where
  "matchesCriteria criteria r =
     (if (case criteriaSpeaker criteria of None \<Rightarrow> False | Some who \<Rightarrow> speaker r \<noteq> who)
      then False
      else if (case criteriaRecordType criteria of None \<Rightarrow> False | Some k \<Rightarrow> recordType r \<noteq> k)
      then False
      else if truthy (fileExtension criteria) \<and> truthy (filePath r)
              \<and> \<not> endsWithOpt (filePath r) (fileExtension criteria)
      then False
      else True)"

definition keywordOrEmpty :: "SearchCriteria \<Rightarrow> jsstring" where
  "keywordOrEmpty criteria = (case keyword criteria of None \<Rightarrow> [] | Some k \<Rightarrow> k)"

text \<open>
  The callback of \<open>filteredRecords.map\<close>, record by record: the first throw ends the
  map.
\<close>

fun toSearchResults ::
  "(jsstring \<Rightarrow> jsstring \<Rightarrow> error + nat) \<Rightarrow> jsstring \<Rightarrow> DialogueRecord list
     \<Rightarrow> (error + SearchResult list) option" where
  "toSearchResults engine kw [] = Some (Inr [])"
| "toSearchResults engine kw (r # rs) =
     (case calculateRelevance engine r kw of
        Inl e \<Rightarrow> Some (Inl e)
      | Inr score \<Rightarrow>
          (case extractHighlights (content r) kw of
             None \<Rightarrow> None
           | Some hs \<Rightarrow>
               (case toSearchResults engine kw rs of
                  None \<Rightarrow> None
                | Some (Inl e) \<Rightarrow> Some (Inl e)
                | Some (Inr results) \<Rightarrow>
                    Some (Inr (\<lparr>resultRecord = r, relevance = score, highlights = hs\<rparr> # results)))))"

text \<open>
  \<open>search\<close>. Its first step, \<open>databaseService.searchRecords(keyword, startTime,
  endTime)\<close>, is a query of the SQL engine; what it resolved or was rejected with is the
  argument \<open>stored\<close>. The sort of the source is stable and descending in the score.
  The result is \<open>None\<close> where the search would not return.
\<close>

definition search ::
  "(jsstring \<Rightarrow> jsstring \<Rightarrow> error + nat) \<Rightarrow> SearchCriteria \<Rightarrow> error + DialogueRecord list
     \<Rightarrow> (error + SearchResult list) option" where
  "search engine criteria stored =
     (case stored of
        Inl e \<Rightarrow> Some (Inl e)
      | Inr records \<Rightarrow>
          (case toSearchResults engine (keywordOrEmpty criteria)
                  (filter (matchesCriteria criteria) records) of
             None \<Rightarrow> None
           | Some (Inl e) \<Rightarrow> Some (Inl e)
           | Some (Inr results) \<Rightarrow> Some (Inr (sort_key (\<lambda>x. - relevance x) results))))"

section \<open>The precedence of role inference, in the specification's words\<close>

text \<open>
  A question mark or interrogative vocabulary, then implementation vocabulary, then a
  length above 100, else nothing. The two vocabularies are those the source tests.
\<close>

definition questionIndicators :: "jsstring list" where
  "questionIndicators =
   [ascii ''?'', [0xFF1F], [0x8BF7, 0x95EE], [0x5982, 0x4F55], [0x4EC0, 0x4E48],
    [0x4E3A, 0x4EC0, 0x4E48]]"

definition implementationIndicators :: "jsstring list" where
  "implementationIndicators =
   [[0x4EE3, 0x7801], [0x5B9E, 0x73B0], [0x529F, 0x80FD], [0x5DE5, 0x5177]]"

definition specInferredRole :: "jsstring \<Rightarrow> speaker option" where
  "specInferredRole line =
     (if \<exists>q \<in> set questionIndicators. includesStr line q then Some USER
      else if \<exists>w \<in> set implementationIndicators. includesStr line w then Some BUILDER
      else if length line > 100 then Some CHAT
      else None)"

text \<open>A line reaches the inference when it is no noise, matches no marker and is dialogue.\<close>

definition reachesInference :: "jsstring \<Rightarrow> bool" where
  "reachesInference line \<longleftrightarrow>
     \<not> isTerminalOrSystemMessage line \<and> \<not> matchesBuilder line \<and> \<not> matchesChat line
     \<and> \<not> matchesUser line \<and> isPureDialogueContent line"

text \<open>A greeting, a question mark and filling: 117 units.\<close>

definition longQuestion :: jsstring where
  "longQuestion = [0x4F60, 0x597D] @ ascii ''? aaaaaaaaaaaaaaaaaaaaaaaaaaaaaaaaaaaaaaaaaaaaaaaaaaaaaaaaaaaaaaaaaaaaaaaaaaaaaaaaaaaaaaaaaaaaaaaaaaaaaaaaaaaaaaaaaaaaaa''"

section \<open>Occurrences, excerpts and the score, in the specification's words\<close>

text \<open>\<open>k\<close> occurs in \<open>s\<close> at index \<open>m\<close>.\<close>

definition occursAt :: "jsstring \<Rightarrow> jsstring \<Rightarrow> nat \<Rightarrow> bool" where
  "occursAt k s m \<longleftrightarrow> prefix k (drop m s)"

text \<open>
  The excerpt for a match of \<open>k\<close> at index \<open>m\<close> of \<open>t\<close>: from 20 units before the
  match to 20 units after it, clipped to the text.
\<close>

definition excerptWindow :: "jsstring \<Rightarrow> jsstring \<Rightarrow> nat \<Rightarrow> jsstring" where
  "excerptWindow t k m = drop (m - 20) (take (m + length k + 20) t)"

text \<open>
  What the loop of \<open>extractHighlights\<close> cuts from the text \<open>t\<close> when \<open>indexOf\<close> found
  the keyword at index \<open>m\<close> of the lowercased copy.
\<close>

definition highlightAt :: "jsstring \<Rightarrow> jsstring \<Rightarrow> nat \<Rightarrow> jsstring" where
  "highlightAt t k m =
     substring t (max 0 (int m - 20)) (min (int (length t)) (int m + int (length k) + 20))"

text \<open>The occurrences of \<open>k\<close> in a string that do not overlap, counted from the left.\<close>

fun countOccurrences :: "jsstring \<Rightarrow> jsstring \<Rightarrow> nat" where
  "countOccurrences k [] = 0"
| "countOccurrences k (c # cs) =
     (if k \<noteq> [] \<and> prefix k (c # cs) then Suc (countOccurrences k (drop (length k - 1) cs))
      else countOccurrences k cs)"

definition firstOccurrence :: "jsstring \<Rightarrow> jsstring \<Rightarrow> nat" where
  "firstOccurrence k s = (case filter (occursAt k s) [0..<length s] of [] \<Rightarrow> 0 | m # ms \<Rightarrow> m)"

text \<open>
  The score of a text in which a keyword occurs, letters compared without case:
  \<open>min(1, 0.3 + occurrenceCount * 0.2 + positionScore * 0.5)\<close> with
  \<open>positionScore = max(0, 1 - firstOccurrenceIndex / len(text))\<close>.
\<close>

definition specRelevance :: "jsstring \<Rightarrow> jsstring \<Rightarrow> real" where
  "specRelevance k t =
     (let occurrenceCount = countOccurrences (toLowerCase k) (toLowerCase t);
          positionScore =
            max 0 (1 - real (firstOccurrence (toLowerCase k) (toLowerCase t)) / real (length t))
      in min 1 (3 / 10 + real occurrenceCount * (2 / 10) + positionScore * (1 / 2)))"

text \<open>
  A keyword in which no character has a meaning in the pattern syntax
  (\<open>^ $ \ . * + ? ( ) [ ] { } |\<close>).
\<close>

definition plainKeyword :: "jsstring \<Rightarrow> bool" where
  "plainKeyword k \<longleftrightarrow> k \<noteq> [] \<and> list_all (\<lambda>c. \<not> syntaxCharacter c) k"

section \<open>Inputs of the closed examples\<close>

text \<open>The line \<open>Builder: \<close> followed by eight Chinese characters, and those eight.\<close>

definition scenarioText :: jsstring where
  "scenarioText = [0x6211, 0x6765, 0x5E2E, 0x60A8, 0x521B, 0x5EFA, 0x9879, 0x76EE]"

definition scenarioLine :: jsstring where
  "scenarioLine = ascii ''Builder: '' @ scenarioText"

text \<open>A store whose handle is \<open>null\<close> after a settled initialisation, and its listener.\<close>

definition closedStore :: DatabaseService where
  "closedStore = \<lparr>db = None, initialization = None, engineFailure = None, saveCalls = 0\<rparr>"

definition closedListener :: DialogueListenerService where
  "closedListener = newListener\<lparr>databaseService := closedStore\<rparr>"

text \<open>A line with a user marker that passes every test.\<close>

definition userLine :: jsstring where
  "userLine = ascii ''[User] how is it going today''"

text \<open>
  For the closed examples: an engine (no example has a pattern beyond the modelled
  ones, so it is never asked), a record with a given text and file path, and criteria
  with a keyword only.
\<close>

definition plainEngine :: "jsstring \<Rightarrow> jsstring \<Rightarrow> error + nat" where
  "plainEngine pattern subject = Inl SyntaxError"

definition sampleRecord :: "jsstring \<Rightarrow> jsstring option \<Rightarrow> DialogueRecord" where
  "sampleRecord t path =
     \<lparr>recordId = ascii ''record_1'', sessionId = ascii ''session_1_abc'', timestamp = 0,
      speaker = USER, content = t, recordType = DIALOGUE, filePath = path,
      modificationType = None, oldContent = None, newContent = None,
      operationDetails = None\<rparr>"

definition keywordCriteria :: "jsstring option \<Rightarrow> SearchCriteria" where
  "keywordCriteria k =
     \<lparr>keyword = k, startTime = None, endTime = None, criteriaSpeaker = None,
      criteriaRecordType = None, fileExtension = None\<rparr>"

text \<open>Thirty \<open>x\<close>, \<open>Ab\<close>, thirty \<open>y\<close>, \<open>aB\<close>: the keyword \<open>AB\<close> occurs at 30 and 62.\<close>

definition twoMatches :: jsstring where
  "twoMatches = ascii ''xxxxxxxxxxxxxxxxxxxxxxxxxxxxxxAbyyyyyyyyyyyyyyyyyyyyyyyyyyyyyyaB''"

text \<open>U+0130, thirty \<open>x\<close>, \<open>AB\<close>, thirty \<open>y\<close>: the keyword \<open>ab\<close> occurs at index 31.\<close>

definition dottedText :: jsstring where
  "dottedText =
     [0x130] @ ascii ''xxxxxxxxxxxxxxxxxxxxxxxxxxxxxxAByyyyyyyyyyyyyyyyyyyyyyyyyyyyyy''"

text \<open>A store with one record, of the session \<open>session_1_abc\<close>.\<close>

definition oneRecordStore :: DatabaseService where
  "oneRecordStore = emptyStore\<lparr>db := Some [sampleRecord (ascii ''hello there'') None]\<rparr>"

text \<open>
  Criteria with the file extension \<open>.ts\<close> alone, and three records: one with a path
  ending in \<open>.ts\<close>, one with another path, one without a path.
\<close>

definition tsCriteria :: SearchCriteria where
  "tsCriteria = (keywordCriteria None)\<lparr>fileExtension := Some (ascii ''.ts'')\<rparr>"

definition threeRecords :: "DialogueRecord list" where
  "threeRecords =
     [sampleRecord (ascii ''edited the parser'') (Some (ascii ''/src/parser.ts'')),
      sampleRecord (ascii ''edited the styles'') (Some (ascii ''/src/site.js'')),
      sampleRecord (ascii ''hello there'') None]"

section \<open>Properties of the line classifier\<close>

lemmas string_eval = ascii_def includesStr_def sublist_code(3) toLowerCase_def lowerUnits_def
  lowerUnit_def
  indexOf_def substring_def trim_def isWhiteSpace_def isDigit_def

lemmas classifier_eval = isTerminalOrSystemMessage_def terminalKeywords_def
  classifyLine_def matchesBuilder_def matchesChat_def matchesUser_def markedContent_def
  isRealChatContent_def pureNumber_def onlySymbols_def
  statusWord_def statusWords_def systemPrefixes_def minLength_def maxLength_def
  isPureDialogueContent_def dialogueIndicators_def determineSpeakerFromContext_def

lemmas store_eval = awaitDb_def storedColumns_def saveRecord_def storedRecords_def
  dialogueRecord_def recordDialogue_def analyzeOutputLine_def handleEvent_def emptyStore_def
  newListener_def speakerName_def failureLine_def

lemma includesStr_toLowerCase:
  "includesStr line k \<Longrightarrow> includesStr (toLowerCase line) (toLowerCase k)"
  unfolding includesStr_def toLowerCase_def sublist_def by (metis map_append concat_append)

lemma noise_classify:
  assumes "k \<in> set terminalKeywords" and "includesStr line k"
  shows "classifyLine line = None"
proof -
  have "isTerminalOrSystemMessage line"
    unfolding isTerminalOrSystemMessage_def list_ex_iff
    using assms includesStr_toLowerCase by blast
  then show ?thesis by (simp add: classifyLine_def)
qed

text \<open>
  C2. A line that contains a keyword of the noise table is dropped whatever else it
  holds: \<open>analyzeOutputLine\<close> returns the listener as it was, with no record stored
  and nothing written.
\<close>

theorem noise_line_never_recorded:
  assumes "k \<in> set terminalKeywords" and "includesStr line k"
  shows "analyzeOutputLine L line rid now = Inr L"
  using noise_classify [OF assms] by (simp add: analyzeOutputLine_def)

text \<open>
  The same at a line that carries a user marker, dialogue vocabulary and a question
  mark besides the keyword \<open>npm\<close>.
\<close>

theorem noise_line_never_recorded_witness:
  "ascii ''npm'' \<in> set terminalKeywords
   \<and> includesStr (ascii ''[User] '' @ [0x8BF7, 0x95EE] @ ascii '' npm install ?'') (ascii ''npm'')
   \<and> analyzeOutputLine newListener (ascii ''[User] '' @ [0x8BF7, 0x95EE] @ ascii '' npm install ?'')
         (ascii ''record_1'') 0 = Inr newListener"
proof -
  have k: "ascii ''npm'' \<in> set terminalKeywords"
    by (simp add: terminalKeywords_def)
  have i: "includesStr (ascii ''[User] '' @ [0x8BF7, 0x95EE] @ ascii '' npm install ?'') (ascii ''npm'')"
    by (simp add: string_eval)
  show ?thesis
    using k i noise_line_never_recorded [OF k i, of newListener "ascii ''record_1''" 0] by simp
qed

text \<open>
  C3, as stated, fails: the scenario line is not classified as a builder record with
  the text after the marker; on a listener with an open, empty store it leaves the
  store empty.
\<close>

theorem builder_scenario_counterexample:
  "classifyLine scenarioLine \<noteq> Some (BUILDER, scenarioText)
   \<and> analyzeOutputLine newListener scenarioLine (ascii ''record_1'') 0 = Inr newListener
   \<and> storedRecords (databaseService newListener) = []"
  by (simp add: scenarioLine_def scenarioText_def string_eval classifier_eval store_eval)

text \<open>
  C3, amended. The scenario line produces no record, in any state: it contains the
  noise keyword U+521B U+5EFA (create), and the text the builder marker leaves has
  eight characters, fewer than the ten the content gate asks for.
\<close>

theorem builder_scenario_not_recorded:
  "analyzeOutputLine L scenarioLine rid now = Inr L
   \<and> [0x521B, 0x5EFA] \<in> set terminalKeywords
   \<and> includesStr scenarioLine [0x521B, 0x5EFA]
   \<and> extractContent scenarioLine [ascii ''[Builder]'', ascii ''Builder:''] = Some scenarioText
   \<and> length scenarioText = 8
   \<and> \<not> isRealChatContent scenarioText"
proof -
  have k: "[0x521B, 0x5EFA] \<in> set terminalKeywords"
    by (simp add: terminalKeywords_def)
  have i: "includesStr scenarioLine [0x521B, 0x5EFA]"
    by (simp add: scenarioLine_def scenarioText_def string_eval)
  have c: "classifyLine scenarioLine = None"
    using noise_classify [OF k i] .
  have e: "extractContent scenarioLine [ascii ''[Builder]'', ascii ''Builder:''] = Some scenarioText"
    by (simp add: scenarioLine_def scenarioText_def string_eval)
  have g: "\<not> isRealChatContent scenarioText"
    by (simp add: scenarioText_def isRealChatContent_def minLength_def)
  show ?thesis using k i c e g by (simp add: analyzeOutputLine_def scenarioText_def)
qed

lemma includesStr_trans: "includesStr b a \<Longrightarrow> includesStr c b \<Longrightarrow> includesStr c a"
  unfolding includesStr_def sublist_def by (metis append.assoc)

lemma prefix_includesStr: "prefix k s \<Longrightarrow> includesStr s k"
  unfolding includesStr_def sublist_def prefix_def by (metis append_Nil)

text \<open>
  Every line with a builder marker contains \<open>Build\<close>, hence the keyword \<open>build\<close>
  once in lower case: the noise test drops it before the marker is looked at.
\<close>

lemma builder_marker_is_noise:
  assumes "matchesBuilder line"
  shows "isTerminalOrSystemMessage line" and "classifyLine line = None"
proof -
  have "includesStr line (ascii ''[Builder]'') \<or> includesStr line (ascii ''Builder:'')"
    using assms prefix_includesStr by (auto simp: matchesBuilder_def)
  moreover have "includesStr (ascii ''[Builder]'') (ascii ''Build'')"
                "includesStr (ascii ''Builder:'') (ascii ''Build'')"
    by (simp_all add: string_eval)
  ultimately have "includesStr line (ascii ''Build'')"
    using includesStr_trans by blast
  then have "includesStr (toLowerCase line) (toLowerCase (ascii ''Build''))"
    by (rule includesStr_toLowerCase)
  moreover have "toLowerCase (ascii ''Build'') = toLowerCase (ascii ''build'')"
    by (simp add: string_eval)
  moreover have "ascii ''build'' \<in> set terminalKeywords"
    by (simp add: terminalKeywords_def)
  ultimately show "isTerminalOrSystemMessage line"
    unfolding isTerminalOrSystemMessage_def list_ex_iff by metis
  then show "classifyLine line = None" by (simp add: classifyLine_def)
qed

lemma determineSpeaker_specInferredRole:
  "determineSpeakerFromContext line = specInferredRole line"
  by (simp add: determineSpeakerFromContext_def specInferredRole_def questionIndicators_def
      implementationIndicators_def)

text \<open>
  C5. For a line that reaches the implicit-content inference, the role is the one the
  precedence gives (question, then implementation vocabulary, then length above 100,
  else the line is dropped), and the line is recorded under that role when it passes
  the content gate. A line of more than 100 units with a question mark gets the role
  \<open>USER\<close> and is never recorded as \<open>CHAT\<close>.
\<close>

theorem role_inference_precedence:
  assumes "reachesInference line"
  shows "determineSpeakerFromContext line = specInferredRole line
         \<and> classifyLine line =
             (case specInferredRole line of
                None \<Rightarrow> None
              | Some who \<Rightarrow> if isRealChatContent line then Some (who, line) else None)
         \<and> (length line > 100 \<and> includesStr line (ascii ''?'')
              \<longrightarrow> determineSpeakerFromContext line = Some USER
                  \<and> classifyLine line \<noteq> Some (CHAT, line))"
proof -
  have role: "determineSpeakerFromContext line = specInferredRole line"
    by (rule determineSpeaker_specInferredRole)
  have cls: "classifyLine line =
             (case specInferredRole line of
                None \<Rightarrow> None
              | Some who \<Rightarrow> if isRealChatContent line then Some (who, line) else None)"
    using assms by (simp add: reachesInference_def classifyLine_def role)
  have q: "specInferredRole line = Some USER" if "includesStr line (ascii ''?'')"
    using that by (simp add: specInferredRole_def questionIndicators_def)
  show ?thesis using role cls q by auto
qed

theorem role_inference_precedence_witness:
  "reachesInference longQuestion
   \<and> length longQuestion > 100 \<and> includesStr longQuestion (ascii ''?'')
   \<and> determineSpeakerFromContext longQuestion = Some USER
   \<and> classifyLine longQuestion = Some (USER, longQuestion)"
proof -
  have r: "reachesInference longQuestion"
    by (simp add: reachesInference_def longQuestion_def string_eval classifier_eval)
  have l: "length longQuestion > 100 \<and> includesStr longQuestion (ascii ''?'')"
    by (simp add: longQuestion_def string_eval)
  have g: "isRealChatContent longQuestion"
    by (simp add: longQuestion_def string_eval classifier_eval)
  have u: "specInferredRole longQuestion = Some USER"
    using l by (simp add: specInferredRole_def questionIndicators_def)
  show ?thesis
    using role_inference_precedence [OF r] r l g u by simp
qed

section \<open>Properties of recording\<close>

lemma saveRecord_calls: "saveCalls (snd (saveRecord S r)) = Suc (saveCalls S)"
  by (simp add: saveRecord_def Let_def split: sum.splits option.splits)

lemma saveRecord_failure_keeps_rows:
  "fst (saveRecord S r) = Some e \<Longrightarrow> storedRecords (snd (saveRecord S r)) = storedRecords S"
  by (auto simp: saveRecord_def Let_def storedRecords_def
      split: sum.splits option.splits if_splits)

lemma recordDialogue_returns: "\<exists>L'. recordDialogue L who t rid now = Inr L'"
  by (simp add: recordDialogue_def Let_def split: prod.splits option.splits)

lemma analyzeOutputLine_returns: "\<exists>L'. analyzeOutputLine L line rid now = Inr L'"
  using recordDialogue_returns by (auto simp: analyzeOutputLine_def split: option.splits)

lemma handleEvent_returns: "\<exists>L'. handleEvent L ev rid now = Inr L'"
  using recordDialogue_returns by (auto simp: handleEvent_def split: option.splits)

text \<open>
  C9. Classifying a line and recording a dialogue return normally in every state and
  for every input. \<open>recordDialogue\<close> calls \<open>saveRecord\<close> once; when that call fails,
  the rows of the store are as before and the console has one more line, the error.
\<close>

theorem recording_never_raises:
  "(\<exists>L'. analyzeOutputLine L line rid now = Inr L')
   \<and> (\<exists>L'. recordDialogue L who t rid now = Inr L'
         \<and> saveCalls (databaseService L') = Suc (saveCalls (databaseService L))
         \<and> (\<forall>e. fst (saveRecord (databaseService L) (dialogueRecord L who t rid now)) = Some e
              \<longrightarrow> storedRecords (databaseService L') = storedRecords (databaseService L)
                  \<and> console L' = console L @ [ConsoleError failureLine e]))"
proof (cases "saveRecord (databaseService L) (dialogueRecord L who t rid now)")
  case (Pair res S')
  have c: "saveCalls S' = Suc (saveCalls (databaseService L))"
    using saveRecord_calls [of "databaseService L" "dialogueRecord L who t rid now"] Pair
    by simp
  have rec: "\<exists>L'. recordDialogue L who t rid now = Inr L'
         \<and> saveCalls (databaseService L') = Suc (saveCalls (databaseService L))
         \<and> (\<forall>e. fst (saveRecord (databaseService L) (dialogueRecord L who t rid now)) = Some e
              \<longrightarrow> storedRecords (databaseService L') = storedRecords (databaseService L)
                  \<and> console L' = console L @ [ConsoleError failureLine e])"
  proof (cases res)
    case None
    then show ?thesis using Pair c by (simp add: recordDialogue_def)
  next
    case (Some e)
    have "storedRecords S' = storedRecords (databaseService L)"
      using saveRecord_failure_keeps_rows
        [of "databaseService L" "dialogueRecord L who t rid now" e] Pair Some
      by simp
    then show ?thesis using Pair Some c by (simp add: recordDialogue_def)
  qed
  show ?thesis using rec analyzeOutputLine_returns by blast
qed

text \<open>
  The same on a store whose handle is \<open>null\<close>: \<open>saveRecord\<close> throws, the call returns,
  one attempt was made, no row was stored and the console holds the error.
\<close>

theorem recording_never_raises_witness:
  "fst (saveRecord (databaseService closedListener)
          (dialogueRecord closedListener USER userLine (ascii ''record_1'') 0))
     = Some DatabaseNotInitialized
   \<and> (\<exists>L'. recordDialogue closedListener USER userLine (ascii ''record_1'') 0 = Inr L'
         \<and> saveCalls (databaseService L') = 1
         \<and> storedRecords (databaseService L') = []
         \<and> console L' = [ConsoleError failureLine DatabaseNotInitialized])"
proof -
  have f: "fst (saveRecord (databaseService closedListener)
          (dialogueRecord closedListener USER userLine (ascii ''record_1'') 0))
     = Some DatabaseNotInitialized"
    by (simp add: closedListener_def closedStore_def saveRecord_def awaitDb_def)
  have s: "saveCalls (databaseService closedListener) = 0"
       "storedRecords (databaseService closedListener) = []"
       "console closedListener = []"
    by (simp_all add: closedListener_def closedStore_def newListener_def storedRecords_def)
  show ?thesis
    using recording_never_raises [of closedListener userLine "ascii ''record_1''" 0 USER userLine]
      f s
    by auto
qed

lemma classifyLine_gate:
  assumes "classifyLine line = Some (who, t)"
  shows "isRealChatContent t"
  using assms
  by (auto simp: classifyLine_def markedContent_def split: if_splits option.splits)

lemma isRealChatContent_length:
  "isRealChatContent t \<Longrightarrow> 10 \<le> length t \<and> length t \<le> 5000"
  by (auto simp: isRealChatContent_def minLength_def maxLength_def split: if_splits)

lemma recordDialogue_new_rows:
  assumes "recordDialogue L who t rid now = Inr L'"
    and "r \<in> set (storedRecords (databaseService L'))"
    and "r \<notin> set (storedRecords (databaseService L))"
  shows "content r = t"
  using assms
  by (auto simp: recordDialogue_def saveRecord_def awaitDb_def storedRecords_def Let_def
      dialogueRecord_def storedColumns_def
      split: prod.splits option.splits sum.splits if_splits)

text \<open>
  C4, as stated, fails: opening a terminal named \<open>sh\<close> stores a builder record whose
  text has nine units.
\<close>

theorem lifecycle_text_counterexample:
  "(case handleEvent newListener (TerminalOpened (ascii ''sh'')) (ascii ''record_1'') 0 of
      Inl e \<Rightarrow> []
    | Inr L' \<Rightarrow> map (\<lambda>r. (speaker r, length (content r))) (storedRecords (databaseService L')))
   = [(BUILDER, 9)]"
  by (simp add: string_eval store_eval Let_def)

text \<open>
  C4, amended. Every record that classifying a line adds to the store has a text of
  10 to 5000 units. (Lifecycle events are recorded without the content gate.)
\<close>

theorem classified_text_within_bounds:
  assumes "analyzeOutputLine L line rid now = Inr L'"
    and "r \<in> set (storedRecords (databaseService L'))"
    and "r \<notin> set (storedRecords (databaseService L))"
  shows "10 \<le> length (content r) \<and> length (content r) \<le> 5000"
proof (cases "classifyLine line")
  case None
  then show ?thesis using assms by (simp add: analyzeOutputLine_def)
next
  case (Some c)
  obtain who tx where c: "c = (who, tx)" by (cases c)
  have "recordDialogue L who tx rid now = Inr L'"
    using assms(1) Some c by (simp add: analyzeOutputLine_def)
  then have "content r = tx" using assms(2,3) by (rule recordDialogue_new_rows)
  moreover have "isRealChatContent tx" using Some c classifyLine_gate by simp
  ultimately show ?thesis using isRealChatContent_length by simp
qed

theorem classified_text_within_bounds_witness:
  "\<exists>L' r. analyzeOutputLine newListener userLine (ascii ''record_1'') 0 = Inr L'
     \<and> r \<in> set (storedRecords (databaseService L'))
     \<and> r \<notin> set (storedRecords (databaseService newListener))
     \<and> speaker r = USER \<and> content r = ascii ''how is it going today''
     \<and> 10 \<le> length (content r) \<and> length (content r) \<le> 5000"
proof -
  obtain L' where a: "analyzeOutputLine newListener userLine (ascii ''record_1'') 0 = Inr L'"
    using analyzeOutputLine_returns by blast
  define r where "r = dialogueRecord newListener USER (ascii ''how is it going today'')
                        (ascii ''record_1'') 0"
  have c: "classifyLine userLine = Some (USER, ascii ''how is it going today'')"
    by (simp add: userLine_def string_eval classifier_eval)
  have rows: "storedRecords (databaseService L') = [r]"
    using a c by (auto simp: r_def store_eval Let_def)
  have old: "storedRecords (databaseService newListener) = []"
    by (simp add: store_eval)
  have i: "r \<in> set (storedRecords (databaseService L'))" using rows by simp
  have n: "r \<notin> set (storedRecords (databaseService newListener))" using old by simp
  have f: "speaker r = USER \<and> content r = ascii ''how is it going today''"
    by (simp add: r_def dialogueRecord_def)
  show ?thesis
    using classified_text_within_bounds [OF a i n] a i n f by blast
qed

text \<open>
  The text a terminal's opening stores has seven units more than the terminal's name:
  there is no upper bound either.
\<close>

lemma lifecycle_text_unbounded:
  "\<exists>L'. handleEvent newListener (TerminalOpened name) rid now = Inr L'
     \<and> map (\<lambda>r. length (content r)) (storedRecords (databaseService L')) = [7 + length name]"
  by (simp add: store_eval ascii_def Let_def)

section \<open>Properties of the search\<close>

lemmas search_eval = search_def keywordOrEmpty_def matchesCriteria_def truthy_def
  endsWithOpt_def calculateRelevance_def globalMatchCount_def compilePattern_def
  syntaxCharacter_def lineTerminator_def extractHighlights_def sampleRecord_def
  keywordCriteria_def plainEngine_def

lemma indexOfAux_spec:
  assumes "k \<noteq> []" and "p \<le> length s"
  shows "(indexOfAux (drop p s) k p = -1 \<and> filter (occursAt k s) [p..<length s] = [])
       \<or> (\<exists>m. p \<le> m \<and> m < length s \<and> indexOfAux (drop p s) k p = int m \<and> occursAt k s m
             \<and> filter (occursAt k s) [p..<length s] = filter (occursAt k s) [m..<length s])"
  using assms(2)
proof (induction "length s - p" arbitrary: p)
  case 0
  then have "drop p s = []" by simp
  moreover have "[p..<length s] = []" using 0 by simp
  ultimately show ?case using assms(1) by simp
next
  case (Suc n)
  then have lt: "p < length s" by simp
  then obtain c cs where d: "drop p s = c # cs"
    by (metis Cons_nth_drop_Suc)
  have cs: "cs = drop (Suc p) s"
    using d by (metis drop_Suc tl_drop list.sel(3))
  have up: "[p..<length s] = p # [Suc p..<length s]"
    using lt by (simp add: upt_conv_Cons)
  show ?case
  proof (cases "prefix k (c # cs)")
    case True
    then have "indexOfAux (drop p s) k p = int p" "occursAt k s p"
      using d by (simp_all add: occursAt_def)
    then show ?thesis using lt by blast
  next
    case False
    then have no: "\<not> occursAt k s p" using d by (simp add: occursAt_def)
    have step: "indexOfAux (drop p s) k p = indexOfAux (drop (Suc p) s) k (Suc p)"
      using False d cs by simp
    have f: "filter (occursAt k s) [p..<length s] = filter (occursAt k s) [Suc p..<length s]"
      using no up by simp
    have "n = length s - Suc p" using Suc(2) by simp
    from Suc(1) [OF this] lt
    have "(indexOfAux (drop (Suc p) s) k (Suc p) = -1
            \<and> filter (occursAt k s) [Suc p..<length s] = [])
       \<or> (\<exists>m. Suc p \<le> m \<and> m < length s \<and> indexOfAux (drop (Suc p) s) k (Suc p) = int m
             \<and> occursAt k s m
             \<and> filter (occursAt k s) [Suc p..<length s] = filter (occursAt k s) [m..<length s])"
      by simp
    then show ?thesis
      using step f by (metis Suc_leD)
  qed
qed

lemma indexOf_spec:
  assumes "k \<noteq> []" and "p \<le> length s"
  shows "(indexOf s k (int p) = -1 \<and> filter (occursAt k s) [p..<length s] = [])
       \<or> (\<exists>m. p \<le> m \<and> m < length s \<and> indexOf s k (int p) = int m \<and> occursAt k s m
             \<and> filter (occursAt k s) [p..<length s] = filter (occursAt k s) [m..<length s])"
proof -
  have "indexOf s k (int p) = indexOfAux (drop p s) k p"
    using assms(2) by (simp add: indexOf_def Let_def min_def)
  then show ?thesis using indexOfAux_spec [OF assms] by simp
qed

lemma occursAt_less: "k \<noteq> [] \<Longrightarrow> occursAt k s m \<Longrightarrow> m < length s"
  by (cases "m < length s") (simp_all add: occursAt_def)

lemma includesStr_occursAt: "includesStr s k \<longleftrightarrow> (\<exists>m. occursAt k s m)"
proof
  assume "includesStr s k"
  then obtain ps ss where "s = ps @ k @ ss"
    by (auto simp: includesStr_def sublist_def)
  then have "occursAt k s (length ps)" by (simp add: occursAt_def)
  then show "\<exists>m. occursAt k s m" ..
next
  assume "\<exists>m. occursAt k s m"
  then obtain m where "prefix k (drop m s)" by (auto simp: occursAt_def)
  then obtain ss where "drop m s = k @ ss" by (auto simp: prefix_def)
  then have "s = take m s @ k @ ss" by (metis append_take_drop_id)
  then show "includesStr s k" unfolding includesStr_def sublist_def by blast
qed

lemma indexOf_firstOccurrence:
  assumes "k \<noteq> []" and "includesStr s k"
  shows "indexOf s k 0 = int (firstOccurrence k s)"
proof -
  obtain j where j: "occursAt k s j" using assms(2) includesStr_occursAt by blast
  have jl: "j < length s" using occursAt_less [OF assms(1) j] .
  have ne: "filter (occursAt k s) [0..<length s] \<noteq> []"
    using j jl by (auto simp: filter_empty_conv)
  have z: "(0::nat) \<le> length s" by simp
  from indexOf_spec [OF assms(1) z] ne
  obtain m where m: "m < length s" "indexOf s k 0 = int m" "occursAt k s m"
      "filter (occursAt k s) [0..<length s] = filter (occursAt k s) [m..<length s]"
    by auto
  have "[m..<length s] = m # [Suc m..<length s]" using m(1) by (simp add: upt_conv_Cons)
  then have "firstOccurrence k s = m"
    using m(3,4) by (simp add: firstOccurrence_def)
  then show ?thesis using m(2) by simp
qed

lemma highlightAt_excerptWindow:
  assumes "m \<le> length t"
  shows "highlightAt t k m = excerptWindow t k m"
  using assms
  by (simp add: highlightAt_def substring_def excerptWindow_def Let_def drop_take min_def
      max_def nat_diff_distrib nat_add_distrib)

lemma lowerUnits_nonempty: "lowerUnits c \<noteq> []"
  by (simp add: lowerUnits_def)

lemma toLowerCase_nonempty: "k \<noteq> [] \<Longrightarrow> toLowerCase k \<noteq> []"
  by (cases k) (simp_all add: toLowerCase_def lowerUnits_nonempty)

text \<open>Lowercasing keeps the length of a string without U+0130.\<close>

lemma toLowerCase_length: "0x130 \<notin> set t \<Longrightarrow> length (toLowerCase t) = length t"
  by (induction t) (auto simp: toLowerCase_def lowerUnits_def)

lemma highlightLoop_done: "highlightLoop t k cl kl (-1) acc = Some acc"
  by (subst highlightLoop.simps) simp

lemma highlightLoop_spec:
  assumes "kl \<noteq> []"
  shows "m < length cl \<Longrightarrow> occursAt kl cl m \<Longrightarrow>
         highlightLoop t k cl kl (int m) acc
         = Some (acc @ map (highlightAt t k) (filter (occursAt kl cl) [m..<length cl]))"
proof (induction "length cl - m" arbitrary: m acc rule: less_induct)
  case less
  have up: "[m..<length cl] = m # [Suc m..<length cl]"
    using less.prems(1) by (simp add: upt_conv_Cons)
  have unfold: "highlightLoop t k cl kl (int m) acc
        = highlightLoop t k cl kl (indexOf cl kl (int (Suc m))) (acc @ [highlightAt t k m])"
    by (subst highlightLoop.simps) (simp add: highlightAt_def add.commute)
  have p: "Suc m \<le> length cl" using less.prems(1) by simp
  from indexOf_spec [OF assms(1) p]
  show ?case
  proof
    assume "indexOf cl kl (int (Suc m)) = -1 \<and> filter (occursAt kl cl) [Suc m..<length cl] = []"
    then show ?thesis
      using unfold up less.prems(2) by (simp add: highlightLoop_done)
  next
    assume "\<exists>m'. Suc m \<le> m' \<and> m' < length cl \<and> indexOf cl kl (int (Suc m)) = int m'
              \<and> occursAt kl cl m'
              \<and> filter (occursAt kl cl) [Suc m..<length cl] = filter (occursAt kl cl) [m'..<length cl]"
    then obtain m' where m': "Suc m \<le> m'" "m' < length cl"
        "indexOf cl kl (int (Suc m)) = int m'" "occursAt kl cl m'"
        "filter (occursAt kl cl) [Suc m..<length cl] = filter (occursAt kl cl) [m'..<length cl]"
      by blast
    have "length cl - m' < length cl - m" using m'(1,2) by simp
    from less.hyps [OF this m'(2) m'(4), of "acc @ [highlightAt t k m]"]
    show ?thesis
      using unfold up less.prems(2) m'(3,5) by simp
  qed
qed

text \<open>
  The loop of \<open>extractHighlights\<close> ends for every text and keyword. Its result has one
  excerpt for every index at which the lowercased keyword occurs in the lowercased
  copy of the text, cut from the text itself at that index.
\<close>

lemma extractHighlights_code:
  assumes "k \<noteq> []"
  shows "extractHighlights t k
         = Some (map (highlightAt t k)
                  (filter (occursAt (toLowerCase k) (toLowerCase t))
                     [0..<length (toLowerCase t)]))"
proof -
  let ?cl = "toLowerCase t" and ?kl = "toLowerCase k"
  have kl: "?kl \<noteq> []" using assms by (rule toLowerCase_nonempty)
  have z: "(0::nat) \<le> length ?cl" by simp
  from indexOf_spec [OF kl z]
  show ?thesis
  proof
    assume "indexOf ?cl ?kl (int 0) = -1 \<and> filter (occursAt ?kl ?cl) [0..<length ?cl] = []"
    then show ?thesis
      using assms by (simp add: extractHighlights_def highlightLoop_done)
  next
    assume "\<exists>m. 0 \<le> m \<and> m < length ?cl \<and> indexOf ?cl ?kl (int 0) = int m \<and> occursAt ?kl ?cl m
             \<and> filter (occursAt ?kl ?cl) [0..<length ?cl] = filter (occursAt ?kl ?cl) [m..<length ?cl]"
    then obtain m where m: "m < length ?cl" "indexOf ?cl ?kl (int 0) = int m"
       "occursAt ?kl ?cl m"
       "filter (occursAt ?kl ?cl) [0..<length ?cl] = filter (occursAt ?kl ?cl) [m..<length ?cl]"
      by blast
    from highlightLoop_spec [OF kl m(1) m(3), of t k "[]"]
    show ?thesis using assms m(2,4) by (simp add: extractHighlights_def)
  qed
qed

text \<open>
  For a text without U+0130 the indices of the copy are those of the text, and the
  excerpts are the windows of the specification.
\<close>

lemma extractHighlights_spec:
  assumes "k \<noteq> []" and "0x130 \<notin> set t"
  shows "extractHighlights t k
         = Some (map (excerptWindow t k)
                  (filter (occursAt (toLowerCase k) (toLowerCase t)) [0..<length t]))"
proof -
  have len: "length (toLowerCase t) = length t"
    using assms(2) by (rule toLowerCase_length)
  have "map (highlightAt t k) (filter (occursAt (toLowerCase k) (toLowerCase t)) [0..<length t])
        = map (excerptWindow t k) (filter (occursAt (toLowerCase k) (toLowerCase t)) [0..<length t])"
    by (rule map_cong) (auto simp: highlightAt_excerptWindow)
  then show ?thesis using extractHighlights_code [OF assms(1), of t] len by simp
qed

lemma extractHighlights_returns: "\<exists>hs. extractHighlights t k = Some hs"
proof (cases "k = []")
  case True
  then show ?thesis by (simp add: extractHighlights_def)
next
  case False
  then show ?thesis using extractHighlights_code by blast
qed

lemma toSearchResults_props:
  assumes "toSearchResults engine k rs = Some (Inr results)"
  shows "map resultRecord results = rs
         \<and> (\<forall>x \<in> set results.
               extractHighlights (content (resultRecord x)) k = Some (highlights x)
               \<and> calculateRelevance engine (resultRecord x) k = Inr (relevance x))"
  using assms
proof (induction rs arbitrary: results)
  case Nil
  then show ?case by simp
next
  case (Cons r rs)
  then show ?case
    by (auto split: sum.splits option.splits)
qed

lemma search_props:
  assumes "search engine c stored = Some (Inr results)" and "x \<in> set results"
  shows "\<exists>records. stored = Inr records \<and> resultRecord x \<in> set records
           \<and> matchesCriteria c (resultRecord x)
           \<and> extractHighlights (content (resultRecord x)) (keywordOrEmpty c) = Some (highlights x)
           \<and> calculateRelevance engine (resultRecord x) (keywordOrEmpty c) = Inr (relevance x)"
proof -
  obtain records where st: "stored = Inr records"
    using assms(1) by (cases stored) (simp_all add: search_def)
  obtain raw where
    raw: "toSearchResults engine (keywordOrEmpty c) (filter (matchesCriteria c) records)
            = Some (Inr raw)"
    and srt: "results = sort_key (\<lambda>x. - relevance x) raw"
    using assms(1) st by (auto simp: search_def split: option.splits sum.splits)
  have x: "x \<in> set raw" using assms(2) srt by simp
  from toSearchResults_props [OF raw] x
  have "resultRecord x \<in> set (filter (matchesCriteria c) records)"
    by (metis image_eqI set_map)
  then show ?thesis using st toSearchResults_props [OF raw] x by auto
qed

text \<open>
  With a keyword that is not empty, the highlights of every result whose text has no
  U+0130 are the excerpts of all occurrences of the keyword in the text (letters
  compared without case), from left to right; so each occurrence has its excerpt in
  the list.
\<close>

lemma highlights_without_dotted_I:
  assumes "search engine c stored = Some (Inr results)"
    and "keyword c = Some k" and "k \<noteq> []" and "x \<in> set results"
    and "0x130 \<notin> set (content (resultRecord x))"
  shows "highlights x =
           map (excerptWindow (content (resultRecord x)) k)
             (filter (occursAt (toLowerCase k) (toLowerCase (content (resultRecord x))))
                [0..<length (content (resultRecord x))])
         \<and> (\<forall>m. occursAt (toLowerCase k) (toLowerCase (content (resultRecord x))) m
               \<longrightarrow> excerptWindow (content (resultRecord x)) k m \<in> set (highlights x))"
proof -
  let ?t = "content (resultRecord x)"
  have kw: "keywordOrEmpty c = k" using assms(2) by (simp add: keywordOrEmpty_def)
  have "extractHighlights ?t k = Some (highlights x)"
    using search_props [OF assms(1,4)] kw by auto
  then have eq: "highlights x =
      map (excerptWindow ?t k) (filter (occursAt (toLowerCase k) (toLowerCase ?t)) [0..<length ?t])"
    using extractHighlights_spec [OF assms(3,5)] by simp
  have kl: "toLowerCase k \<noteq> []" using assms(3) by (rule toLowerCase_nonempty)
  have "excerptWindow ?t k m \<in> set (highlights x)"
    if "occursAt (toLowerCase k) (toLowerCase ?t) m" for m
  proof -
    have "m < length ?t"
      using occursAt_less [OF kl that] toLowerCase_length [OF assms(5)] by simp
    then show ?thesis using that eq by simp
  qed
  then show ?thesis using eq by blast
qed

lemma twoMatches_search:
  "search plainEngine (keywordCriteria (Some (ascii ''AB''))) (Inr [sampleRecord twoMatches None])
   = Some (Inr [\<lparr>resultRecord = sampleRecord twoMatches None, relevance = 309 / 320,
                 highlights = [ascii ''xxxxxxxxxxxxxxxxxxxxAbyyyyyyyyyyyyyyyyyyyy'',
                               ascii ''yyyyyyyyyyyyyyyyyyyyaB'']\<rparr>])"
  by (simp add: search_eval string_eval twoMatches_def highlightLoop.simps Let_def)

text \<open>
  C7 fails at a text with U+0130 before the match. In \<open>dottedText\<close> the keyword
  \<open>ab\<close> occurs (as \<open>AB\<close>) at index 31, and the window of 20 units before and after
  it holds twenty \<open>x\<close>, \<open>AB\<close> and twenty \<open>y\<close>. The lowercased copy is one unit
  longer, \<open>indexOf\<close> finds the keyword at index 32 of the copy, and the source cuts the
  text at that index: the one highlight of the result holds nineteen \<open>x\<close>, \<open>AB\<close>
  and twenty-one \<open>y\<close>.
\<close>

theorem highlights_shifted_after_dotted_I:
  "take 2 (drop 31 dottedText) = ascii ''AB''
   \<and> toLowerCase (ascii ''AB'') = toLowerCase (ascii ''ab'')
   \<and> excerptWindow dottedText (ascii ''ab'') 31
       = ascii ''xxxxxxxxxxxxxxxxxxxxAByyyyyyyyyyyyyyyyyyyy''
   \<and> length (toLowerCase dottedText) = Suc (length dottedText)
   \<and> indexOf (toLowerCase dottedText) (toLowerCase (ascii ''ab'')) 0 = 32
   \<and> search engine (keywordCriteria (Some (ascii ''ab''))) (Inr [sampleRecord dottedText None])
       = Some (Inr [\<lparr>resultRecord = sampleRecord dottedText None, relevance = 3 / 4,
                      highlights = [ascii ''xxxxxxxxxxxxxxxxxxxAByyyyyyyyyyyyyyyyyyyyy'']\<rparr>])
   \<and> excerptWindow dottedText (ascii ''ab'') 31
       \<notin> set [ascii ''xxxxxxxxxxxxxxxxxxxAByyyyyyyyyyyyyyyyyyyyy'']"
proof -
  have a: "take 2 (drop 31 dottedText) = ascii ''AB''"
    by (simp add: dottedText_def ascii_def)
  have b: "toLowerCase (ascii ''AB'') = toLowerCase (ascii ''ab'')"
    by (simp add: string_eval)
  have c: "excerptWindow dottedText (ascii ''ab'') 31
       = ascii ''xxxxxxxxxxxxxxxxxxxxAByyyyyyyyyyyyyyyyyyyy''"
    by (simp add: excerptWindow_def dottedText_def ascii_def)
  have d: "length (toLowerCase dottedText) = Suc (length dottedText)"
    by (simp add: dottedText_def string_eval)
  have e: "indexOf (toLowerCase dottedText) (toLowerCase (ascii ''ab'')) 0 = 32"
    by (simp add: dottedText_def string_eval)
  have f: "search engine (keywordCriteria (Some (ascii ''ab'')))
             (Inr [sampleRecord dottedText None])
       = Some (Inr [\<lparr>resultRecord = sampleRecord dottedText None, relevance = 3 / 4,
                      highlights = [ascii ''xxxxxxxxxxxxxxxxxxxAByyyyyyyyyyyyyyyyyyyyy'']\<rparr>])"
    by (simp add: search_eval string_eval dottedText_def highlightLoop.simps Let_def)
  have g: "excerptWindow dottedText (ascii ''ab'') 31
       \<notin> set [ascii ''xxxxxxxxxxxxxxxxxxxAByyyyyyyyyyyyyyyyyyyyy'']"
    using c by (simp add: ascii_def)
  show ?thesis using a b c d e f g by simp
qed

text \<open>
  C10. When the keyword is absent or empty, every result of a search has an empty list
  of highlights.
\<close>

theorem no_keyword_no_highlights:
  assumes "search engine c stored = Some (Inr results)"
    and "keyword c = None \<or> keyword c = Some []" and "x \<in> set results"
  shows "highlights x = []"
proof -
  have "keywordOrEmpty c = []"
    using assms(2) by (auto simp: keywordOrEmpty_def)
  then have "extractHighlights (content (resultRecord x)) [] = Some (highlights x)"
    using search_props [OF assms(1,3)] by auto
  then show ?thesis by (simp add: extractHighlights_def)
qed

lemma no_path_search:
  "search plainEngine tsCriteria (Inr [sampleRecord (ascii ''hello there'') None])
   = Some (Inr [\<lparr>resultRecord = sampleRecord (ascii ''hello there'') None,
                  relevance = 1 / 2, highlights = []\<rparr>])"
  by (simp add: tsCriteria_def search_eval string_eval Let_def)

theorem no_keyword_no_highlights_witness:
  "search plainEngine tsCriteria (Inr [sampleRecord (ascii ''hello there'') None])
     = Some (Inr [\<lparr>resultRecord = sampleRecord (ascii ''hello there'') None,
                    relevance = 1 / 2, highlights = []\<rparr>])
   \<and> keyword tsCriteria = None
   \<and> highlights \<lparr>resultRecord = sampleRecord (ascii ''hello there'') None,
                  relevance = 1 / 2, highlights = []\<rparr> = []"
proof -
  let ?x = "\<lparr>resultRecord = sampleRecord (ascii ''hello there'') None,
             relevance = 1 / 2, highlights = []\<rparr>"
  have k: "keyword tsCriteria = None \<or> keyword tsCriteria = Some []"
    by (simp add: tsCriteria_def keywordCriteria_def)
  have x: "?x \<in> set [?x]" by simp
  show ?thesis
    using no_keyword_no_highlights [OF no_path_search k x] no_path_search
    by (simp add: tsCriteria_def keywordCriteria_def)
qed

text \<open>
  C6, as stated, fails: a search with the file extension \<open>.ts\<close> returns a dialogue
  record that has no file path.
\<close>

theorem extension_filter_counterexample:
  "search plainEngine tsCriteria (Inr [sampleRecord (ascii ''hello there'') None])
     = Some (Inr [\<lparr>resultRecord = sampleRecord (ascii ''hello there'') None,
                    relevance = 1 / 2, highlights = []\<rparr>])
   \<and> fileExtension tsCriteria = Some (ascii ''.ts'')
   \<and> filePath (sampleRecord (ascii ''hello there'') None) = None"
  using no_path_search by (simp add: tsCriteria_def keywordCriteria_def sampleRecord_def)

text \<open>
  C6, amended. When the file extension of the query is set (and not empty), every
  returned record that has a file path (not empty) has a path that ends with the
  extension; records without a file path are not filtered by the extension.
\<close>

theorem extension_filter_on_paths:
  assumes "search engine c stored = Some (Inr results)"
    and "fileExtension c = Some e" and "e \<noteq> []" and "x \<in> set results"
    and "filePath (resultRecord x) = Some p" and "p \<noteq> []"
  shows "suffix e p"
proof -
  have "matchesCriteria c (resultRecord x)"
    using search_props [OF assms(1,4)] by auto
  then show ?thesis
    using assms(2,3,5,6)
    by (auto simp: matchesCriteria_def truthy_def endsWithOpt_def split: if_splits)
qed

lemma threeRecords_search:
  "search plainEngine tsCriteria (Inr threeRecords)
   = Some (Inr [\<lparr>resultRecord = sampleRecord (ascii ''edited the parser'') (Some (ascii ''/src/parser.ts'')),
                  relevance = 1 / 2, highlights = []\<rparr>,
                \<lparr>resultRecord = sampleRecord (ascii ''hello there'') None,
                  relevance = 1 / 2, highlights = []\<rparr>])"
  by (simp add: threeRecords_def tsCriteria_def search_eval string_eval Let_def suffix_to_prefix)

theorem extension_filter_on_paths_witness:
  "search plainEngine tsCriteria (Inr threeRecords)
   = Some (Inr [\<lparr>resultRecord = sampleRecord (ascii ''edited the parser'') (Some (ascii ''/src/parser.ts'')),
                  relevance = 1 / 2, highlights = []\<rparr>,
                \<lparr>resultRecord = sampleRecord (ascii ''hello there'') None,
                  relevance = 1 / 2, highlights = []\<rparr>])
   \<and> fileExtension tsCriteria = Some (ascii ''.ts'')
   \<and> suffix (ascii ''.ts'') (ascii ''/src/parser.ts'')"
proof -
  let ?x = "\<lparr>resultRecord = sampleRecord (ascii ''edited the parser'') (Some (ascii ''/src/parser.ts'')),
                  relevance = 1 / 2, highlights = []\<rparr>"
  let ?y = "\<lparr>resultRecord = sampleRecord (ascii ''hello there'') None,
                  relevance = 1 / 2, highlights = []\<rparr>"
  have e: "fileExtension tsCriteria = Some (ascii ''.ts'')"
    by (simp add: tsCriteria_def)
  have n: "ascii ''.ts'' \<noteq> []" "ascii ''/src/parser.ts'' \<noteq> []" by (simp_all add: ascii_def)
  have x: "?x \<in> set [?x, ?y]" by simp
  have p: "filePath (resultRecord ?x) = Some (ascii ''/src/parser.ts'')"
    by (simp add: sampleRecord_def)
  show ?thesis
    using extension_filter_on_paths [OF threeRecords_search e n(1) x p n(2)] threeRecords_search e
    by simp
qed

text \<open>
  A record without a file path is returned whenever it meets the criteria other than
  the file extension.
\<close>

lemma pathless_record_returned:
  assumes "search engine c (Inr records) = Some (Inr results)"
    and "r \<in> set records" and "filePath r = None"
    and "matchesCriteria (c\<lparr>fileExtension := None\<rparr>) r"
  shows "r \<in> resultRecord ` set results"
proof -
  obtain raw where
    raw: "toSearchResults engine (keywordOrEmpty c) (filter (matchesCriteria c) records)
            = Some (Inr raw)"
    and srt: "results = sort_key (\<lambda>x. - relevance x) raw"
    using assms(1) by (auto simp: search_def split: option.splits sum.splits)
  have "matchesCriteria c r"
    using assms(3,4) by (auto simp: matchesCriteria_def truthy_def split: if_splits)
  then have "r \<in> set (filter (matchesCriteria c) records)"
    using assms(2) by simp
  then have "r \<in> set (map resultRecord raw)"
    using toSearchResults_props [OF raw] by simp
  then show ?thesis using srt by simp
qed

section \<open>Properties of the relevance score\<close>

lemma relevance_empty_keyword: "calculateRelevance engine r [] = Inr (1 / 2)"
  by (simp add: calculateRelevance_def)

lemma lowerUnits_not_syntax:
  "\<not> syntaxCharacter c \<Longrightarrow> u \<in> set (lowerUnits c) \<Longrightarrow> \<not> syntaxCharacter u"
  by (auto simp: syntaxCharacter_def lowerUnits_def lowerUnit_def split: if_splits)

lemma plainKeyword_toLowerCase: "plainKeyword k \<Longrightarrow> plainKeyword (toLowerCase k)"
  using lowerUnits_not_syntax
  by (auto simp: plainKeyword_def list_all_iff toLowerCase_nonempty) (auto simp: toLowerCase_def)

lemma compilePattern_plain:
  assumes "plainKeyword k"
  shows "compilePattern k = RxAtoms (map RxChar k)"
proof -
  obtain c cs where k: "k = c # cs" using assms by (cases k) (auto simp: plainKeyword_def)
  have all: "\<forall>u \<in> set k. \<not> syntaxCharacter u"
    using assms by (simp add: plainKeyword_def list_all_iff)
  then have dot: "\<forall>u \<in> set k. u \<noteq> 46" by (auto simp: syntaxCharacter_def)
  have hd: "c \<noteq> 42 \<and> c \<noteq> 43 \<and> c \<noteq> 63"
    using all k by (auto simp: syntaxCharacter_def)
  have m: "map (\<lambda>u. if u = 46 then RxAny else RxChar u) k = map RxChar k"
    using dot by (induction k) auto
  have "list_all (\<lambda>u. u = 46 \<or> \<not> syntaxCharacter u) k"
    using all by (simp add: list_all_iff)
  then show ?thesis using hd m k by (simp add: compilePattern_def)
qed

lemma matchesAt_chars: "matchesAt (map RxChar k) s = prefix k s"
  by (induction k s rule: list_induct2') auto

lemma countMatches_chars:
  "k \<noteq> [] \<Longrightarrow> countMatches (map RxChar k) s = countOccurrences k s"
proof (induction k s rule: countOccurrences.induct)
  case (1 k)
  then show ?case by (cases k) auto
next
  case (2 k c cs)
  then show ?case by (simp add: matchesAt_chars)
qed

text \<open>
  For a keyword without pattern syntax that occurs in a text without U+0130, the score
  is the one of the specification.
\<close>

lemma relevance_plain_keyword:
  assumes "plainKeyword k"
    and "includesStr (toLowerCase (content r)) (toLowerCase k)"
    and "0x130 \<notin> set (content r)"
  shows "calculateRelevance engine r k = Inr (specRelevance k (content r))"
proof -
  let ?cl = "toLowerCase (content r)" and ?kl = "toLowerCase k"
  have ne: "k \<noteq> []" "?kl \<noteq> []"
    using assms(1) by (simp_all add: plainKeyword_def toLowerCase_nonempty)
  have cnt: "globalMatchCount engine ?kl ?cl = Inr (countOccurrences ?kl ?cl)"
    using compilePattern_plain [OF plainKeyword_toLowerCase [OF assms(1)]] ne(2)
    by (simp add: globalMatchCount_def countMatches_chars)
  have pos: "indexOf ?cl ?kl 0 = int (firstOccurrence ?kl ?cl)"
    using indexOf_firstOccurrence [OF ne(2) assms(2)] .
  have len: "length ?cl = length (content r)"
    using assms(3) by (rule toLowerCase_length)
  show ?thesis
    using ne(1) assms(2) cnt pos len
    by (simp add: calculateRelevance_def specRelevance_def Let_def)
qed

text \<open>
  C1 fails at keywords with pattern syntax. The keyword \<open>.\<close> occurs once in the
  text \<open>a.b\<close>, at index 1, so the specification's score is 5/6; the code counts the
  three matches of the pattern \<open>.\<close> and the search returns the record with the
  score 1. The keyword \<open>?\<close> occurs once in \<open>why?\<close> (score 5/8); the code throws a
  \<open>SyntaxError\<close> and the search is rejected.
\<close>

theorem relevance_counts_pattern_matches:
  "includesStr (toLowerCase (ascii ''a.b'')) (toLowerCase (ascii ''.''))
   \<and> countOccurrences (toLowerCase (ascii ''.'')) (toLowerCase (ascii ''a.b'')) = 1
   \<and> specRelevance (ascii ''.'') (ascii ''a.b'') = 5 / 6
   \<and> calculateRelevance engine (sampleRecord (ascii ''a.b'') None) (ascii ''.'') = Inr 1
   \<and> search engine (keywordCriteria (Some (ascii ''.''))) (Inr [sampleRecord (ascii ''a.b'') None])
       = Some (Inr [\<lparr>resultRecord = sampleRecord (ascii ''a.b'') None, relevance = 1,
                      highlights = [ascii ''a.b'']\<rparr>])
   \<and> includesStr (toLowerCase (ascii ''why?'')) (toLowerCase (ascii ''?''))
   \<and> specRelevance (ascii ''?'') (ascii ''why?'') = 5 / 8
   \<and> calculateRelevance engine (sampleRecord (ascii ''why?'') None) (ascii ''?'') = Inl SyntaxError
   \<and> search engine (keywordCriteria (Some (ascii ''?''))) (Inr [sampleRecord (ascii ''why?'') None])
       = Some (Inl SyntaxError)"
proof -
  have a: "includesStr (toLowerCase (ascii ''a.b'')) (toLowerCase (ascii ''.''))"
       "includesStr (toLowerCase (ascii ''why?'')) (toLowerCase (ascii ''?''))"
    by (simp_all add: string_eval)
  have b: "countOccurrences (toLowerCase (ascii ''.'')) (toLowerCase (ascii ''a.b'')) = 1"
    by (simp add: string_eval)
  have c: "specRelevance (ascii ''.'') (ascii ''a.b'') = 5 / 6"
    by (simp add: specRelevance_def firstOccurrence_def occursAt_def string_eval Let_def)
  have d: "specRelevance (ascii ''?'') (ascii ''why?'') = 5 / 8"
    by (simp add: specRelevance_def firstOccurrence_def occursAt_def string_eval Let_def)
  have e: "calculateRelevance engine (sampleRecord (ascii ''a.b'') None) (ascii ''.'') = Inr 1"
    by (simp add: search_eval string_eval Let_def)
  have f: "calculateRelevance engine (sampleRecord (ascii ''why?'') None) (ascii ''?'')
            = Inl SyntaxError"
    by (simp add: search_eval string_eval Let_def)
  have g: "search engine (keywordCriteria (Some (ascii ''.'')))
             (Inr [sampleRecord (ascii ''a.b'') None])
       = Some (Inr [\<lparr>resultRecord = sampleRecord (ascii ''a.b'') None, relevance = 1,
                      highlights = [ascii ''a.b'']\<rparr>])"
    by (simp add: search_eval string_eval highlightLoop.simps Let_def)
  have h: "search engine (keywordCriteria (Some (ascii ''?'')))
             (Inr [sampleRecord (ascii ''why?'') None])
       = Some (Inl SyntaxError)"
    by (simp add: search_eval string_eval Let_def)
  show ?thesis using a b c d e f g h by simp
qed

section \<open>Properties of the session detail\<close>

text \<open>
  C8. When the store has no record of the session, \<open>getSessionDetail\<close> fails: it never
  resolves. On an open, working store the failure is the \<open>TypeError\<close> of reading the
  start time of the missing aggregate row.
\<close>

theorem unknown_session_detail_fails:
  assumes "\<forall>r \<in> set (storedRecords S). sessionId r \<noteq> sid"
  shows "(\<exists>e. getSessionDetail S sid = Inl e)
         \<and> (db S \<noteq> None \<and> engineFailure S = None \<longrightarrow> getSessionDetail S sid = Inl TypeError)"
proof (cases "db S")
  case None
  then show ?thesis
    by (simp add: getSessionDetail_def awaitDb_def split: option.splits)
next
  case (Some rows)
  then have "filter (\<lambda>r. sessionId r = sid) rows = []"
    using assms by (auto simp: storedRecords_def filter_empty_conv)
  then have "sessionInfoRow rows sid = None"
    by (simp add: sessionInfoRow_def)
  then show ?thesis
    using Some
    by (simp add: getSessionDetail_def getRecordsBySession_def awaitDb_def split: option.splits)
qed

theorem unknown_session_detail_fails_witness:
  "map sessionId (storedRecords oneRecordStore) = [ascii ''session_1_abc'']
   \<and> ascii ''session_1_abc'' \<noteq> ascii ''unknown-id''
   \<and> getSessionDetail oneRecordStore (ascii ''unknown-id'') = Inl TypeError"
proof -
  have m: "map sessionId (storedRecords oneRecordStore) = [ascii ''session_1_abc'']"
    by (simp add: oneRecordStore_def emptyStore_def storedRecords_def sampleRecord_def)
  have d: "ascii ''session_1_abc'' \<noteq> ascii ''unknown-id''"
    by (simp add: ascii_def)
  have a: "\<forall>r \<in> set (storedRecords oneRecordStore). sessionId r \<noteq> ascii ''unknown-id''"
    using d by (simp add: oneRecordStore_def emptyStore_def storedRecords_def sampleRecord_def)
  have b: "db oneRecordStore \<noteq> None \<and> engineFailure oneRecordStore = None"
    by (simp add: oneRecordStore_def emptyStore_def)
  have "getSessionDetail oneRecordStore (ascii ''unknown-id'') = Inl TypeError"
    using unknown_session_detail_fails [OF a] b by blast
  then show ?thesis using m d by simp
qed

text \<open>The session the store does hold has a detail.\<close>

lemma known_session_detail_resolves:
  "getSessionDetail oneRecordStore (ascii ''session_1_abc'')
   = Inr \<lparr>detailSessionId = ascii ''session_1_abc'',
          detailSessionName = [0x4F1A, 0x8BDD] @ ascii '' session_...'',
          detailRecords = [sampleRecord (ascii ''hello there'') None],
          detailTotalRecords = 1,
          detailDuration = ascii ''0'' @ [0x79D2],
          detailSpeakers = [ascii ''USER''],
          detailStartTime = 0,
          detailEndTime = 0\<rparr>"
  by (simp add: getSessionDetail_def getRecordsBySession_def awaitDb_def sessionInfoRow_def
      oneRecordStore_def emptyStore_def sampleRecord_def formatDuration_def toDecimal.simps
      speakerName_def string_eval Let_def)

end
